theory Spec2Isabelle
  imports Main
begin

section \<open>The file manager widget: data model\<close>

text \<open>
  The widget lives in the second document of
  \<^verbatim>\<open>src/indico/modules/rb/client/js/modules/blockings/index.js\<close>: the components
  \<^verbatim>\<open>Dropzone\<close>, \<^verbatim>\<open>FileType\<close>, \<^verbatim>\<open>FileManager\<close> and \<^verbatim>\<open>FinalFileManager\<close>.
  JavaScript strings are modelled as \<^typ>\<open>string\<close> (one \<^typ>\<open>char\<close> per code unit),
  \<^verbatim>\<open>null\<close>/\<^verbatim>\<open>undefined\<close> as \<^const>\<open>None\<close>.
\<close>

text \<open>A browser \<^verbatim>\<open>File\<close> object as handed over by the drop event.\<close>

record js_file =
  name :: string
  size :: nat

text \<open>
  A file of a category (\<^verbatim>\<open>filePropTypes\<close>): the source reads \<^verbatim>\<open>uuid\<close> and
  \<^verbatim>\<open>state\<close>; \<^verbatim>\<open>state\<close> is compared with the strings \<^verbatim>\<open>'added'\<close> and
  \<^verbatim>\<open>'modified'\<close> and is absent for a file seeded from the form's value.
\<close>

record fm_file =
  uuid :: string
  filename :: string
  state :: "string option"

text \<open>
  A category (\<^verbatim>\<open>fileTypePropTypes\<close>), with the fields the components destructure:
  \<^verbatim>\<open>id, name, extensions, filenameTemplate, allowMultipleFiles, files, invalidFiles\<close>.
\<close>

record file_type =
  id_ft :: nat
  name_ft :: string
  extensions :: "string list"
  filenameTemplate :: "string option"
  allowMultipleFiles :: bool
  files :: "fm_file list"
  invalidFiles :: "string list"

text \<open>An upload in flight (\<^verbatim>\<open>{file, progress}\<close> in \<^verbatim>\<open>FileType.propTypes\<close>).\<close>

record upload =
  file_up :: js_file
  progress :: nat

text \<open>
  The actions of the reducer. \<^verbatim>\<open>Dropzone\<close> and \<^verbatim>\<open>FileManager\<close> create
  \<^verbatim>\<open>invalidTemplate(id, name)\<close>, \<^verbatim>\<open>reset(fileTypes)\<close> and \<^verbatim>\<open>clearDirty()\<close>
  themselves and hand \<^verbatim>\<open>markUploaded\<close> or \<^verbatim>\<open>markModified\<close> to the coordinator.
\<close>

datatype action =
    Reset "file_type list"
  | MarkUploaded nat string string
  | MarkModified nat string string "string option"
  | InvalidTemplate nat string
  | StartUpload nat js_file
  | Progress nat nat
  | UploadFailed nat
  | Removed nat string
  | ClearDirty

text \<open>The two action creators \<^verbatim>\<open>Dropzone\<close> chooses between.\<close>

datatype mark_action = markUploaded | markModified

text \<open>
  The state of \<^verbatim>\<open>useReducer\<close> in \<^verbatim>\<open>FileManager\<close>:
  \<^verbatim>\<open>{fileTypes: _fileTypes, uploads: {}, isDirty: false}\<close>.
\<close>

record fm_state =
  fileTypes :: "file_type list"
  uploads :: "(nat \<times> upload) list"
  isDirty :: bool

text \<open>
  What the components do to their collaborators, in the order they do it: a dispatched
  action, a call of the coordinator \<^verbatim>\<open>uploadFiles(action, id, files, url, dispatch,
  replaceUuid)\<close>, a call of \<^verbatim>\<open>deleteFile(uuid)\<close>, a call of \<^verbatim>\<open>onChange(value)\<close>.
\<close>

datatype effect =
    Dispatch action
  | UploadFiles mark_action nat "js_file list" string "string option"
  | DeleteFile string
  | OnChange "string list"

record world =
  registry :: fm_state
  lastPristineRef :: "bool option"
  trace :: "effect list"

section \<open>Collaborators that are not in the sources\<close>

text \<open>
  Modelled from the spec: the reducer (\<^verbatim>\<open>./reducer\<close> is imported, its file is missing).
  Section 4.3 of the spec: \<^verbatim>\<open>reset\<close> replaces the entire state with the given
  FileTypes, clears uploads and clears dirty; \<^verbatim>\<open>markUploaded\<close> appends a File with
  state added to the category, sets dirty and removes the matching Upload;
  \<^verbatim>\<open>markModified\<close> replaces the matching file with a new File with state modified and
  sets dirty; \<^verbatim>\<open>invalidTemplate\<close> appends the filename to the category's invalid list
  and does not set dirty; progress updates set the Upload's progress and do not set
  dirty; a removal drops the entry and sets dirty; \<^verbatim>\<open>clearDirty\<close> sets dirty to false.
  Section 3: an Upload is created on drop-accept and destroyed on completion or failure.
\<close>

definition updateType :: "nat \<Rightarrow> (file_type \<Rightarrow> file_type) \<Rightarrow> file_type list \<Rightarrow> file_type list" where
  "updateType i f fts = map (\<lambda>ft. if id_ft ft = i then f ft else ft) fts"

definition dropUpload :: "nat \<Rightarrow> (nat \<times> upload) list \<Rightarrow> (nat \<times> upload) list" where
  "dropUpload i ups = filter (\<lambda>p. fst p \<noteq> i) ups"

fun reducer :: "fm_state \<Rightarrow> action \<Rightarrow> fm_state" where
  "reducer s (Reset fts) = \<lparr>fileTypes = fts, uploads = [], isDirty = False\<rparr>"
| "reducer s (MarkUploaded i u fn) =
     s\<lparr>fileTypes := updateType i
          (\<lambda>ft. ft\<lparr>files := files ft @ [\<lparr>uuid = u, filename = fn, state = Some ''added''\<rparr>]\<rparr>)
          (fileTypes s),
       uploads := dropUpload i (uploads s),
       isDirty := True\<rparr>"
| "reducer s (MarkModified i u fn r) =
     s\<lparr>fileTypes := updateType i
          (\<lambda>ft. ft\<lparr>files := map (\<lambda>f. if Some (uuid f) = r
                                     then \<lparr>uuid = u, filename = fn, state = Some ''modified''\<rparr>
                                     else f) (files ft)\<rparr>)
          (fileTypes s),
       uploads := dropUpload i (uploads s),
       isDirty := True\<rparr>"
| "reducer s (InvalidTemplate i fn) =
     s\<lparr>fileTypes := updateType i (\<lambda>ft. ft\<lparr>invalidFiles := invalidFiles ft @ [fn]\<rparr>) (fileTypes s)\<rparr>"
| "reducer s (StartUpload i f) =
     s\<lparr>uploads := dropUpload i (uploads s) @ [(i, \<lparr>file_up = f, progress = 0\<rparr>)]\<rparr>"
| "reducer s (Progress i p) =
     s\<lparr>uploads := map (\<lambda>q. if fst q = i then (i, (snd q)\<lparr>progress := p\<rparr>) else q) (uploads s)\<rparr>"
| "reducer s (UploadFailed i) = s\<lparr>uploads := dropUpload i (uploads s)\<rparr>"
| "reducer s (Removed i u) =
     s\<lparr>fileTypes := updateType i (\<lambda>ft. ft\<lparr>files := filter (\<lambda>f. uuid f \<noteq> u) (files ft)\<rparr>) (fileTypes s),
       isDirty := True\<rparr>"
| "reducer s ClearDirty = s\<lparr>isDirty := False\<rparr>"

text \<open>
  \<^verbatim>\<open>dispatch\<close> is the second component of \<^verbatim>\<open>useReducer(reducer, ...)\<close>, passed down
  through \<^verbatim>\<open>FileManagerContext\<close>: it applies the reducer to the state.
\<close>

definition dispatch :: "action \<Rightarrow> world \<Rightarrow> world" where
  "dispatch a w = w\<lparr>registry := reducer (registry w) a, trace := trace w @ [Dispatch a]\<rparr>"

text \<open>
  Modelled from the spec: \<^verbatim>\<open>deleteFile(uuid)\<close> of \<^verbatim>\<open>./util\<close> (file missing).
  Section 4.2: it issues a fire-and-forget delete request to the server; failures are not
  surfaced to the UI. The request is recorded in the trace, the registry is not touched.
\<close>

definition deleteFile :: "string \<Rightarrow> world \<Rightarrow> world" where
  "deleteFile u w = w\<lparr>trace := trace w @ [DeleteFile u]\<rparr>"

text \<open>
  What the upload endpoint answers for one file: the progress percentages it reports
  and the outcome, the assigned uuid and stored filename or nothing on failure.
\<close>

record response =
  reported :: "nat list"
  outcome :: "(string \<times> string) option"

text \<open>
  Modelled from the spec: \<^verbatim>\<open>uploadFiles(markAction, categoryId, files, uploadURL,
  dispatch, replaceUuid)\<close> of \<^verbatim>\<open>./util\<close> (file missing). Section 4.2: for each file it
  issues an upload request, reports progress via dispatched progress events, on success
  dispatches the given mark action with the server-assigned uuid and filename, on failure
  dispatches a failure event (the file is simply not added); it returns, per file, the
  resulting identity or a failure sentinel, preserving input order. The endpoint is the
  parameter \<open>server\<close>.
\<close>

fun mark :: "mark_action \<Rightarrow> nat \<Rightarrow> string \<Rightarrow> string \<Rightarrow> string option \<Rightarrow> action" where
  "mark markUploaded i u fn r = MarkUploaded i u fn"
| "mark markModified i u fn r = MarkModified i u fn r"

definition uploadFile ::
  "(string \<Rightarrow> js_file \<Rightarrow> response) \<Rightarrow> mark_action \<Rightarrow> nat \<Rightarrow> string \<Rightarrow> string option \<Rightarrow>
   js_file \<Rightarrow> world \<Rightarrow> (string \<times> string) option \<times> world" where
  "uploadFile server m i uploadURL replaceUuid f w =
     (let w1 = fold (\<lambda>p. dispatch (Progress i p)) (reported (server uploadURL f))
                 (dispatch (StartUpload i f) w)
      in case outcome (server uploadURL f) of
           None \<Rightarrow> (None, dispatch (UploadFailed i) w1)
         | Some (u, fn) \<Rightarrow> (Some (u, fn), dispatch (mark m i u fn replaceUuid) w1))"

fun uploadFiles ::
  "(string \<Rightarrow> js_file \<Rightarrow> response) \<Rightarrow> mark_action \<Rightarrow> nat \<Rightarrow> js_file list \<Rightarrow> string \<Rightarrow>
   string option \<Rightarrow> world \<Rightarrow> (string \<times> string) option list \<times> world" where
  "uploadFiles server m i [] uploadURL replaceUuid w = ([], w)"
| "uploadFiles server m i (f # fs) uploadURL replaceUuid w =
     (let (r, w1) = uploadFile server m i uploadURL replaceUuid f w;
          (rs, w2) = uploadFiles server m i fs uploadURL replaceUuid w1
      in (r # rs, w2))"

section \<open>Dropzone\<close>

text \<open>
  \<^verbatim>\<open>const fileToReplace =
    !allowMultipleFiles && files.length && files[0].state !== 'added' ? files[0] : null;\<close>
\<close>

definition fileToReplace :: "file_type \<Rightarrow> fm_file option" where
  "fileToReplace ft =
     (case files ft of
        [] \<Rightarrow> None
      | f # _ \<Rightarrow> if \<not> allowMultipleFiles ft \<and> state f \<noteq> Some ''added'' then Some f else None)"

text \<open>
  \<^verbatim>\<open>const fileToDelete =
    !allowMultipleFiles && files.length && ['added', 'modified'].includes(files[0].state)
      ? files[0] : null;\<close>
\<close>

definition fileToDelete :: "file_type \<Rightarrow> fm_file option" where
  "fileToDelete ft =
     (case files ft of
        [] \<Rightarrow> None
      | f # _ \<Rightarrow> if \<not> allowMultipleFiles ft \<and> state f \<in> set [Some ''added'', Some ''modified'']
               then Some f else None)"

text \<open>
  \<^verbatim>\<open>rv[0] !== null\<close>: the first result is not the null sentinel. Reading index 0 of an
  empty array gives \<^verbatim>\<open>undefined\<close>, which is not \<^verbatim>\<open>null\<close>.
\<close>

fun firstNotNull :: "'a option list \<Rightarrow> bool" where
  "firstNotNull [] = True"
| "firstNotNull (r # _) = (r \<noteq> None)"

text \<open>
  \<^verbatim>\<open>onDropAccepted\<close>: a single-file category keeps the first accepted file only
  (\<^verbatim>\<open>acceptedFiles.splice(0, 1)\<close>); the coordinator is called with \<^verbatim>\<open>markModified\<close>
  and the uuid of \<^verbatim>\<open>fileToReplace\<close> when there is one, with \<^verbatim>\<open>markUploaded\<close> and
  \<^verbatim>\<open>null\<close> otherwise; afterwards \<^verbatim>\<open>fileToDelete\<close> is deleted unless the first
  result is \<^verbatim>\<open>null\<close>. The category \<open>ft\<close> is the prop the component was rendered with.
\<close>

definition onDropAccepted ::
  "(string \<Rightarrow> js_file \<Rightarrow> response) \<Rightarrow> string \<Rightarrow> file_type \<Rightarrow> js_file list \<Rightarrow> world \<Rightarrow> world" where
  "onDropAccepted server uploadURL ft dropped w =
     (let acceptedFiles = (if \<not> allowMultipleFiles ft then take 1 dropped else dropped);
          m = (if fileToReplace ft \<noteq> None then markModified else markUploaded);
          replaceUuid = (case fileToReplace ft of Some f \<Rightarrow> Some (uuid f) | None \<Rightarrow> None);
          w0 = w\<lparr>trace := trace w @ [UploadFiles m (id_ft ft) acceptedFiles uploadURL replaceUuid]\<rparr>;
          (rv, w1) = uploadFiles server m (id_ft ft) acceptedFiles uploadURL replaceUuid w0
      in case fileToDelete ft of
           Some d \<Rightarrow> if firstNotNull rv then deleteFile (uuid d) w1 else w1
         | None \<Rightarrow> w1)"

text \<open>The \<^verbatim>\<open>deleteFile\<close> calls and the coordinator calls of a trace, in order.\<close>

fun deleteCalls :: "effect list \<Rightarrow> string list" where
  "deleteCalls [] = []"
| "deleteCalls (DeleteFile u # es) = u # deleteCalls es"
| "deleteCalls (_ # es) = deleteCalls es"

fun uploadCalls :: "effect list \<Rightarrow> effect list" where
  "uploadCalls [] = []"
| "uploadCalls (UploadFiles m i fs url r # es) = UploadFiles m i fs url r # uploadCalls es"
| "uploadCalls (_ # es) = uploadCalls es"

subsection \<open>Filtering dropped files by the filename template\<close>

text \<open>
  \<^verbatim>\<open>String.prototype.indexOf(c)\<close>: the index of the first occurrence of \<open>c\<close>, or
  \<open>-1\<close> when there is none.
\<close>

fun indexOf :: "string \<Rightarrow> char \<Rightarrow> int" where
  "indexOf [] c = - 1"
| "indexOf (x # xs) c =
     (if x = c then 0 else (let k = indexOf xs c in if k < 0 then - 1 else k + 1))"

text \<open>
  \<^verbatim>\<open>String.prototype.slice(begin, end)\<close>: a negative index counts from the end of the
  string, both indices are clamped to the string, and the result is empty when the end
  does not lie after the beginning.
\<close>

definition slice :: "string \<Rightarrow> int \<Rightarrow> int \<Rightarrow> string" where
  "slice s b e =
     (let len = int (length s);
          start = (if b < 0 then max (len + b) 0 else min b len);
          stop = (if e < 0 then max (len + e) 0 else min e len)
      in take (nat (stop - start)) (drop (nat start) s))"

text \<open>
  \<^verbatim>\<open>const filename = file.name.slice(0, file.name.indexOf('.'));\<close>
\<close>

definition templateFilename :: "string \<Rightarrow> string" where
  "templateFilename n = slice n 0 (indexOf n CHR ''.'')"

text \<open>
  The callback of \<^verbatim>\<open>eventFiles.filter\<close>: a file whose \<^verbatim>\<open>filename\<close> fails
  \<^verbatim>\<open>templateRe.test\<close> is reported with \<^verbatim>\<open>dispatch(actions.invalidTemplate(id,
  file.name))\<close> and dropped, any other file is kept. \<open>templateRe\<close> is the test of the
  compiled expression.
\<close>

fun filterTemplate :: "(string \<Rightarrow> bool) \<Rightarrow> nat \<Rightarrow> js_file list \<Rightarrow> world \<Rightarrow> js_file list \<times> world" where
  "filterTemplate templateRe i [] w = ([], w)"
| "filterTemplate templateRe i (f # fs) w =
     (if \<not> templateRe (templateFilename (name f))
      then filterTemplate templateRe i fs (dispatch (InvalidTemplate i (name f)) w)
      else (let (kept, w1) = filterTemplate templateRe i fs w in (f # kept, w1)))"

text \<open>
  \<^verbatim>\<open>getFilesFromEvent\<close>: without a template (\<^verbatim>\<open>!filenameTemplate\<close>: \<^verbatim>\<open>null\<close> or the
  empty string) the files of the event are returned as they are. \<open>globToRegExp\<close> is the
  library \<^verbatim>\<open>glob-to-regexp\<close>, a parameter: given the template, the test of the compiled
  expression. \<open>eventFiles\<close> is what \<^verbatim>\<open>fromEvent(event)\<close> resolved to.
\<close>

definition getFilesFromEvent ::
  "(string \<Rightarrow> string \<Rightarrow> bool) \<Rightarrow> file_type \<Rightarrow> js_file list \<Rightarrow> world \<Rightarrow> js_file list \<times> world" where
  "getFilesFromEvent globToRegExp ft eventFiles w =
     (case filenameTemplate ft of
        None \<Rightarrow> (eventFiles, w)
      | Some t \<Rightarrow> if t = [] then (eventFiles, w)
                 else filterTemplate (globToRegExp t) (id_ft ft) eventFiles w)"

section \<open>FileManager\<close>

text \<open>
  Modelled from the spec: the selectors \<^verbatim>\<open>getFiles\<close> and \<^verbatim>\<open>getUploadedFileUUIDs\<close>
  of \<^verbatim>\<open>./selectors\<close> (file missing). Section 6: the widget presents a single value
  equal to the ordered set of currently uploaded file UUIDs across all categories.
  Section 4.4: on a reset every file currently marked uploaded/modified is deleted.
\<close>

definition getFiles :: "fm_state \<Rightarrow> string list" where
  "getFiles s = concat (map (\<lambda>ft. map uuid (files ft)) (fileTypes s))"

definition getUploadedFileUUIDs :: "fm_state \<Rightarrow> string list" where
  "getUploadedFileUUIDs s =
     map uuid (filter (\<lambda>f. state f = Some ''added'' \<or> state f = Some ''modified'')
                 (concat (map files (fileTypes s))))"

text \<open>
  The first render: \<^verbatim>\<open>lastPristineRef = useRef(pristine)\<close> and
  \<^verbatim>\<open>useReducer(reducer, {fileTypes: _fileTypes, uploads: {}, isDirty: false})\<close>.
\<close>

definition initialState :: "file_type list \<Rightarrow> fm_state" where
  "initialState fts = \<lparr>fileTypes = fts, uploads = [], isDirty = False\<rparr>"

definition mount :: "file_type list \<Rightarrow> bool option \<Rightarrow> world" where
  "mount fts pristine = \<lparr>registry = initialState fts, lastPristineRef = pristine, trace = []\<rparr>"

text \<open>
  The first effect, with \<open>fts\<close> the memoised \<^verbatim>\<open>_fileTypes\<close>:
  \<^verbatim>\<open>if (pristine && !lastPristineRef.current) {
    getUploadedFileUUIDs(state).forEach(uuid => deleteFile(uuid));
    dispatch(actions.reset(_fileTypes));
  }
  lastPristineRef.current = pristine;\<close>
  \<^verbatim>\<open>pristine\<close> is a boolean or \<^verbatim>\<open>null\<close> (its default).
\<close>

definition pristineEffect :: "file_type list \<Rightarrow> bool option \<Rightarrow> world \<Rightarrow> world" where
  "pristineEffect fts pristine w =
     (let w1 = (if pristine = Some True \<and> lastPristineRef w \<noteq> Some True
                then dispatch (Reset fts) (fold deleteFile (getUploadedFileUUIDs (registry w)) w)
                else w)
      in w1\<lparr>lastPristineRef := pristine\<rparr>)"

text \<open>
  The second effect:
  \<^verbatim>\<open>if (state.isDirty) { onChange(getFiles(state)); dispatch(actions.clearDirty()); }\<close>
\<close>

definition onChange :: "string list \<Rightarrow> world \<Rightarrow> world" where
  "onChange v w = w\<lparr>trace := trace w @ [OnChange v]\<rparr>"

definition dirtyEffect :: "world \<Rightarrow> world" where
  "dirtyEffect w =
     (if isDirty (registry w)
      then dispatch ClearDirty (onChange (getFiles (registry w)) w)
      else w)"

text \<open>
  The validation fields of the render, as pairs of field name and the message its
  \<^verbatim>\<open>validate\<close> returns:
  \<^verbatim>\<open>{!!finalFieldName && uploading && <Field name={`_${finalFieldName}_uploading`}
      validate={() => Translate.string('Upload in progress')} />}
  {!!finalFieldName && validationError && <Field name={`_${finalFieldName}_invalid`}
      validate={() => validationError} />}\<close>
  \<open>uploading\<close> is \<^verbatim>\<open>isUploading(state)\<close>, \<open>validationError\<close> is
  \<^verbatim>\<open>getValidationError(state)\<close>, a string or \<^verbatim>\<open>null\<close>; \<open>translate\<close> is
  \<^verbatim>\<open>Translate.string\<close>. A string is truthy when it is neither \<^verbatim>\<open>null\<close> nor empty.
\<close>

definition truthy :: "string option \<Rightarrow> bool" where
  "truthy v = (case v of None \<Rightarrow> False | Some t \<Rightarrow> t \<noteq> [])"

definition validationFields ::
  "(string \<Rightarrow> string) \<Rightarrow> string option \<Rightarrow> bool \<Rightarrow> string option \<Rightarrow> (string \<times> string) list" where
  "validationFields translate finalFieldName uploading validationError =
     (if truthy finalFieldName \<and> uploading
      then [(''_'' @ the finalFieldName @ ''_uploading'', translate ''Upload in progress'')]
      else []) @
     (if truthy finalFieldName \<and> truthy validationError
      then [(''_'' @ the finalFieldName @ ''_invalid'', the validationError)]
      else [])"

section \<open>Example data\<close>

text \<open>
  The scenario of the spec's section 8: the single-file category \<^verbatim>\<open>photo\<close> holding
  \<^verbatim>\<open>a.jpg\<close> with uuid \<^verbatim>\<open>U1\<close>, onto which \<^verbatim>\<open>b.png\<close> is dropped; an endpoint that
  stores every file under the uuid \<^verbatim>\<open>U2\<close> and one that refuses every file.
\<close>

definition photo :: "fm_file list \<Rightarrow> file_type" where
  "photo fs = \<lparr>id_ft = 1, name_ft = ''photo'', extensions = [''jpg'', ''png''],
     filenameTemplate = None, allowMultipleFiles = False, files = fs, invalidFiles = []\<rparr>"

definition aJpg :: "string option \<Rightarrow> fm_file" where
  "aJpg st = \<lparr>uuid = ''U1'', filename = ''a.jpg'', state = st\<rparr>"

definition bPng :: js_file where
  "bPng = \<lparr>name = ''b.png'', size = 10\<rparr>"

definition accepting :: "string \<Rightarrow> js_file \<Rightarrow> response" where
  "accepting url f = \<lparr>reported = [50, 100], outcome = Some (''U2'', name f)\<rparr>"

definition refusing :: "string \<Rightarrow> js_file \<Rightarrow> response" where
  "refusing url f = \<lparr>reported = [50], outcome = None\<rparr>"

text \<open>
  A multi-file category with the filename template \<^verbatim>\<open>paper\<close>, and the behaviour of the
  compiled expression on a template without wildcards: it matches the template itself
  and nothing else.
\<close>

definition papers :: "fm_file list \<Rightarrow> file_type" where
  "papers fs = \<lparr>id_ft = 2, name_ft = ''papers'', extensions = [],
     filenameTemplate = Some ''paper'', allowMultipleFiles = True, files = fs, invalidFiles = []\<rparr>"

definition literalGlob :: "string \<Rightarrow> string \<Rightarrow> bool" where
  "literalGlob t n = (n = t)"

definition dropped3 :: "js_file list" where
  "dropped3 = [\<lparr>name = ''paper.v2.pdf'', size = 3\<rparr>, \<lparr>name = ''draft.pdf'', size = 4\<rparr>,
               \<lparr>name = ''paperX'', size = 5\<rparr>, \<lparr>name = ''paper'', size = 6\<rparr>]"

text \<open>A form being edited (the last \<^verbatim>\<open>pristine\<close> seen was \<^verbatim>\<open>false\<close>) in state \<open>s\<close>.\<close>

definition editing :: "fm_state \<Rightarrow> world" where
  "editing s = \<lparr>registry = s, lastPristineRef = Some False, trace = []\<rparr>"

definition edited :: fm_state where
  "edited = \<lparr>fileTypes = [photo [aJpg (Some ''added'')],
                          papers [\<lparr>uuid = ''U3'', filename = ''paper.pdf'', state = None\<rparr>,
                                  \<lparr>uuid = ''U4'', filename = ''paper.tex'', state = Some ''modified''\<rparr>]],
              uploads = [], isDirty = True\<rparr>"

section \<open>Traces of the coordinator\<close>

lemma deleteCalls_append: "deleteCalls (xs @ ys) = deleteCalls xs @ deleteCalls ys"
  by (induction xs rule: deleteCalls.induct) simp_all

lemma uploadCalls_append: "uploadCalls (xs @ ys) = uploadCalls xs @ uploadCalls ys"
  by (induction xs rule: uploadCalls.induct) simp_all

lemma deleteCalls_map_DeleteFile: "deleteCalls (map DeleteFile us) = us"
  by (induction us) simp_all

lemma dispatch_deleteCalls: "deleteCalls (trace (dispatch a w)) = deleteCalls (trace w)"
  by (simp add: dispatch_def deleteCalls_append)

lemma dispatch_uploadCalls: "uploadCalls (trace (dispatch a w)) = uploadCalls (trace w)"
  by (simp add: dispatch_def uploadCalls_append)

lemma fold_progress_deleteCalls:
  "deleteCalls (trace (fold (\<lambda>p. dispatch (Progress i p)) ps w)) = deleteCalls (trace w)"
  by (induction ps arbitrary: w) (simp_all add: dispatch_deleteCalls)

lemma fold_progress_uploadCalls:
  "uploadCalls (trace (fold (\<lambda>p. dispatch (Progress i p)) ps w)) = uploadCalls (trace w)"
  by (induction ps arbitrary: w) (simp_all add: dispatch_uploadCalls)

lemma fold_progress_fileTypes:
  "fileTypes (registry (fold (\<lambda>p. dispatch (Progress i p)) ps w)) = fileTypes (registry w)"
  by (induction ps arbitrary: w) (simp_all add: dispatch_def)

lemma uploadFile_deleteCalls:
  "deleteCalls (trace (snd (uploadFile server m i url r f w))) = deleteCalls (trace w)"
  by (simp add: uploadFile_def Let_def dispatch_deleteCalls fold_progress_deleteCalls
      split: option.split prod.split)

lemma uploadFile_uploadCalls:
  "uploadCalls (trace (snd (uploadFile server m i url r f w))) = uploadCalls (trace w)"
  by (simp add: uploadFile_def Let_def dispatch_uploadCalls fold_progress_uploadCalls
      split: option.split prod.split)

lemma uploadFiles_deleteCalls:
  "deleteCalls (trace (snd (uploadFiles server m i fs url r w))) = deleteCalls (trace w)"
proof (induction fs arbitrary: w)
  case Nil
  show ?case by simp
next
  case (Cons f fs)
  show ?case
    using Cons.IH [of "snd (uploadFile server m i url r f w)"]
      uploadFile_deleteCalls [of server m i url r f w]
    by (simp add: split_beta Let_def)
qed

lemma uploadFiles_uploadCalls:
  "uploadCalls (trace (snd (uploadFiles server m i fs url r w))) = uploadCalls (trace w)"
proof (induction fs arbitrary: w)
  case Nil
  show ?case by simp
next
  case (Cons f fs)
  show ?case
    using Cons.IH [of "snd (uploadFile server m i url r f w)"]
      uploadFile_uploadCalls [of server m i url r f w]
    by (simp add: split_beta Let_def)
qed

lemma uploadFiles_single:
  "uploadFiles server m i [f] url r w =
   ([fst (uploadFile server m i url r f w)], snd (uploadFile server m i url r f w))"
  by (simp add: split_beta)

text \<open>A refused file leaves the categories alone; a stored one is marked.\<close>

lemma uploadFile_failed:
  assumes "outcome (server url f) = None"
  shows "fst (uploadFile server m i url r f w) = None"
    and "fileTypes (registry (snd (uploadFile server m i url r f w))) = fileTypes (registry w)"
  using assms
  by (simp_all add: uploadFile_def Let_def dispatch_def fold_progress_fileTypes)

lemma uploadFile_succeeded:
  assumes "outcome (server url f) = Some (u, fn)"
  shows "fst (uploadFile server m i url r f w) = Some (u, fn)"
    and "fileTypes (registry (snd (uploadFile server m i url r f w))) =
         fileTypes (reducer (registry w) (mark m i u fn r))"
  using assms
  by (cases m; simp add: uploadFile_def Let_def dispatch_def fold_progress_fileTypes)+

lemma find_updateType:
  assumes "\<And>t. id_ft (h t) = id_ft t"
  shows "find (\<lambda>t. id_ft t = i) (updateType i h fts) = map_option h (find (\<lambda>t. id_ft t = i) fts)"
  using assms by (induction fts) (simp_all add: updateType_def)

section \<open>What a drop does\<close>

lemma onDropAccepted_uploadCalls:
  "uploadCalls (trace (onDropAccepted server url ft dropped w)) =
   uploadCalls (trace w) @
   [UploadFiles (if fileToReplace ft \<noteq> None then markModified else markUploaded) (id_ft ft)
      (if \<not> allowMultipleFiles ft then take 1 dropped else dropped) url
      (case fileToReplace ft of Some f \<Rightarrow> Some (uuid f) | None \<Rightarrow> None)]"
  unfolding onDropAccepted_def Let_def split_beta
  by (simp add: deleteFile_def uploadCalls_append uploadFiles_uploadCalls split: option.split)

lemma onDropAccepted_deleteCalls:
  "deleteCalls (trace (onDropAccepted server url ft dropped w)) =
   deleteCalls (trace w) @
   (case fileToDelete ft of
      None \<Rightarrow> []
    | Some d \<Rightarrow>
        if firstNotNull (fst (uploadFiles server
              (if fileToReplace ft \<noteq> None then markModified else markUploaded) (id_ft ft)
              (if \<not> allowMultipleFiles ft then take 1 dropped else dropped) url
              (case fileToReplace ft of Some f \<Rightarrow> Some (uuid f) | None \<Rightarrow> None)
              (w\<lparr>trace := trace w @ [UploadFiles
                  (if fileToReplace ft \<noteq> None then markModified else markUploaded) (id_ft ft)
                  (if \<not> allowMultipleFiles ft then take 1 dropped else dropped) url
                  (case fileToReplace ft of Some f \<Rightarrow> Some (uuid f) | None \<Rightarrow> None)]\<rparr>)))
        then [uuid d] else [])"
  unfolding onDropAccepted_def Let_def split_beta
  by (simp add: deleteFile_def deleteCalls_append uploadFiles_deleteCalls split: option.split)

lemma onDropAccepted_fileTypes:
  "fileTypes (registry (onDropAccepted server url ft dropped w)) =
   fileTypes (registry (snd (uploadFiles server
      (if fileToReplace ft \<noteq> None then markModified else markUploaded) (id_ft ft)
      (if \<not> allowMultipleFiles ft then take 1 dropped else dropped) url
      (case fileToReplace ft of Some f \<Rightarrow> Some (uuid f) | None \<Rightarrow> None)
      (w\<lparr>trace := trace w @ [UploadFiles
          (if fileToReplace ft \<noteq> None then markModified else markUploaded) (id_ft ft)
          (if \<not> allowMultipleFiles ft then take 1 dropped else dropped) url
          (case fileToReplace ft of Some f \<Rightarrow> Some (uuid f) | None \<Rightarrow> None)]\<rparr>))))"
  unfolding onDropAccepted_def Let_def split_beta
  by (cases "fileToDelete ft") (simp_all add: deleteFile_def)

text \<open>
  A \<^verbatim>\<open>deleteFile\<close> call of a drop is always for the first file of a single-file
  category, and that file is in state added or modified.
\<close>

lemma delete_only_added_or_modified:
  assumes "deleteCalls (trace (onDropAccepted server url ft dropped w)) \<noteq> deleteCalls (trace w)"
  shows "\<exists>g gs. files ft = g # gs \<and> \<not> allowMultipleFiles ft
           \<and> (state g = Some ''added'' \<or> state g = Some ''modified'')
           \<and> deleteCalls (trace (onDropAccepted server url ft dropped w)) =
               deleteCalls (trace w) @ [uuid g]"
proof (cases "files ft")
  case Nil
  then have "fileToDelete ft = None"
    by (simp add: fileToDelete_def)
  with assms show ?thesis
    by (simp add: onDropAccepted_deleteCalls)
next
  case (Cons g gs)
  show ?thesis
  proof (cases "fileToDelete ft")
    case None
    with assms show ?thesis
      by (simp add: onDropAccepted_deleteCalls)
  next
    case (Some d)
    with Cons have "d = g" "\<not> allowMultipleFiles ft"
      "state g = Some ''added'' \<or> state g = Some ''modified''"
      by (auto simp: fileToDelete_def split: if_splits)
    with assms Cons Some show ?thesis
      by (auto simp: onDropAccepted_deleteCalls split: if_splits)
  qed
qed

section \<open>Replacing the file of a single-file category\<close>

text \<open>
  Claim C1, as the code has it. A single-file category holds one file \<open>f\<close> and the
  upload of the dropped file succeeds. The coordinator is called once, with the first
  dropped file only: in modify mode with the uuid of \<open>f\<close> when the state of \<open>f\<close> is
  not added, in add mode without a uuid to replace when it is added. Exactly one
  \<^verbatim>\<open>deleteFile\<close> call, for \<open>f\<close>, is issued when the state of \<open>f\<close> is added or
  modified, none otherwise. In modify mode the category, as the registry holds it, ends
  with exactly one file, the new one, in state modified.
\<close>

theorem replacement_mode_and_deletion:
  assumes "\<not> allowMultipleFiles ft" and "files ft = [f]"
    and "dropped = d # ds" and "outcome (server url d) = Some (u, fn)"
  shows "uploadCalls (trace (onDropAccepted server url ft dropped w)) =
           uploadCalls (trace w) @
           [if state f = Some ''added''
            then UploadFiles markUploaded (id_ft ft) [d] url None
            else UploadFiles markModified (id_ft ft) [d] url (Some (uuid f))]
       \<and> deleteCalls (trace (onDropAccepted server url ft dropped w)) =
           deleteCalls (trace w) @
           (if state f = Some ''added'' \<or> state f = Some ''modified'' then [uuid f] else [])
       \<and> (state f \<noteq> Some ''added'' \<and>
            find (\<lambda>t. id_ft t = id_ft ft) (fileTypes (registry w)) = Some ft \<longrightarrow>
            find (\<lambda>t. id_ft t = id_ft ft)
              (fileTypes (registry (onDropAccepted server url ft dropped w))) =
            Some (ft\<lparr>files := [\<lparr>uuid = u, filename = fn, state = Some ''modified''\<rparr>]\<rparr>))"
proof -
  have acc: "(if \<not> allowMultipleFiles ft then take 1 dropped else dropped) = [d]"
    using assms by simp
  have rep: "fileToReplace ft = (if state f = Some ''added'' then None else Some f)"
    using assms by (simp add: fileToReplace_def)
  have del: "fileToDelete ft =
      (if state f = Some ''added'' \<or> state f = Some ''modified'' then Some f else None)"
    using assms by (simp add: fileToDelete_def)
  have calls: "uploadCalls (trace (onDropAccepted server url ft dropped w)) =
      uploadCalls (trace w) @
      [if state f = Some ''added''
       then UploadFiles markUploaded (id_ft ft) [d] url None
       else UploadFiles markModified (id_ft ft) [d] url (Some (uuid f))]"
    unfolding onDropAccepted_uploadCalls acc rep by simp
  have dels: "deleteCalls (trace (onDropAccepted server url ft dropped w)) =
      deleteCalls (trace w) @
      (if state f = Some ''added'' \<or> state f = Some ''modified'' then [uuid f] else [])"
    unfolding onDropAccepted_deleteCalls acc uploadFiles_single del
    using assms(4) by (simp add: uploadFile_succeeded)
  have fin: "find (\<lambda>t. id_ft t = id_ft ft)
        (fileTypes (registry (onDropAccepted server url ft dropped w))) =
      Some (ft\<lparr>files := [\<lparr>uuid = u, filename = fn, state = Some ''modified''\<rparr>]\<rparr>)"
    if ne: "state f \<noteq> Some ''added''"
      and reg: "find (\<lambda>t. id_ft t = id_ft ft) (fileTypes (registry w)) = Some ft"
  proof -
    have "fileTypes (registry (onDropAccepted server url ft dropped w)) =
        updateType (id_ft ft)
          (\<lambda>t. t\<lparr>files := map (\<lambda>g. if Some (uuid g) = Some (uuid f)
                                    then \<lparr>uuid = u, filename = fn, state = Some ''modified''\<rparr>
                                    else g) (files t)\<rparr>)
          (fileTypes (registry w))"
      unfolding onDropAccepted_fileTypes acc uploadFiles_single rep
      using assms(4) ne by (simp add: uploadFile_succeeded)
    then show ?thesis
      using reg assms(2) by (simp add: find_updateType)
  qed
  show ?thesis
    using calls dels fin by blast
qed

text \<open>
  The theorem at the category \<^verbatim>\<open>photo\<close> holding \<^verbatim>\<open>a.jpg\<close> in state modified:
  \<^verbatim>\<open>b.png\<close> replaces it under the uuid \<^verbatim>\<open>U1\<close>, and \<^verbatim>\<open>U1\<close> is deleted.
\<close>

theorem replacement_mode_and_deletion_witness:
  "uploadCalls (trace (onDropAccepted accepting ''/upload'' (photo [aJpg (Some ''modified'')]) [bPng]
      (mount [photo [aJpg (Some ''modified'')]] (Some False)))) =
     [UploadFiles markModified 1 [bPng] ''/upload'' (Some ''U1'')]
   \<and> deleteCalls (trace (onDropAccepted accepting ''/upload'' (photo [aJpg (Some ''modified'')]) [bPng]
      (mount [photo [aJpg (Some ''modified'')]] (Some False)))) = [''U1'']
   \<and> find (\<lambda>t. id_ft t = 1)
        (fileTypes (registry (onDropAccepted accepting ''/upload'' (photo [aJpg (Some ''modified'')]) [bPng]
           (mount [photo [aJpg (Some ''modified'')]] (Some False))))) =
      Some (photo [\<lparr>uuid = ''U2'', filename = ''b.png'', state = Some ''modified''\<rparr>])"
proof -
  have 1: "\<not> allowMultipleFiles (photo [aJpg (Some ''modified'')])" by (simp add: photo_def)
  have 2: "files (photo [aJpg (Some ''modified'')]) = [aJpg (Some ''modified'')]"
    by (simp add: photo_def)
  have 3: "[bPng] = bPng # []" by simp
  have 4: "outcome (accepting ''/upload'' bPng) = Some (''U2'', ''b.png'')"
    by (simp add: accepting_def bPng_def)
  have 5: "state (aJpg (Some ''modified'')) \<noteq> Some ''added''" by (simp add: aJpg_def)
  have 6: "find (\<lambda>t. id_ft t = id_ft (photo [aJpg (Some ''modified'')]))
      (fileTypes (registry (mount [photo [aJpg (Some ''modified'')]] (Some False)))) =
      Some (photo [aJpg (Some ''modified'')])"
    by (simp add: mount_def initialState_def)
  have 7: "id_ft (photo [aJpg (Some ''modified'')]) = 1" by (simp add: photo_def)
  have 8: "photo [aJpg (Some ''modified'')]
      \<lparr>files := [\<lparr>uuid = ''U2'', filename = ''b.png'', state = Some ''modified''\<rparr>]\<rparr> =
      photo [\<lparr>uuid = ''U2'', filename = ''b.png'', state = Some ''modified''\<rparr>]"
    by (simp add: photo_def)
  have 9: "uuid (aJpg (Some ''modified'')) = ''U1''"
    "state (aJpg (Some ''modified'')) = Some ''modified''"
    by (simp_all add: aJpg_def)
  have 10: "trace (mount [photo [aJpg (Some ''modified'')]] (Some False)) = []"
    by (simp add: mount_def)
  show ?thesis
    using replacement_mode_and_deletion [where server = accepting and url = "''/upload''"
        and ft = "photo [aJpg (Some ''modified'')]" and f = "aJpg (Some ''modified'')"
        and dropped = "[bPng]" and d = bPng and ds = "[]" and u = "''U2''" and fn = "''b.png''"
        and w = "mount [photo [aJpg (Some ''modified'')]] (Some False)"] 1 2 3 4 5 6
    unfolding 7 8 9 10 by simp
qed

text \<open>
  Claim C1 as stated fails when the existing file is in state added: dropping
  \<^verbatim>\<open>b.png\<close> on \<^verbatim>\<open>photo\<close> holding \<^verbatim>\<open>a.jpg\<close> in state added calls the coordinator
  in add mode with no uuid to replace, not in modify mode with \<^verbatim>\<open>U1\<close>.
\<close>

theorem replacement_of_added_file_counterexample:
  "uploadCalls (trace (onDropAccepted accepting ''/upload'' (photo [aJpg (Some ''added'')]) [bPng]
      (mount [photo [aJpg (Some ''added'')]] (Some False)))) =
     [UploadFiles markUploaded 1 [bPng] ''/upload'' None]
   \<and> uploadCalls (trace (onDropAccepted accepting ''/upload'' (photo [aJpg (Some ''added'')]) [bPng]
      (mount [photo [aJpg (Some ''added'')]] (Some False)))) \<noteq>
     [UploadFiles markModified 1 [bPng] ''/upload'' (Some ''U1'')]"
  by (simp add: onDropAccepted_uploadCalls mount_def photo_def aJpg_def fileToReplace_def)

text \<open>
  Claim C2. A single-file category holds a file and the upload of the dropped file
  fails (the endpoint gives no outcome, so the first result is the null sentinel): no
  \<^verbatim>\<open>deleteFile\<close> call is issued and the categories of the registry, with the files they
  hold, are what they were.
\<close>

theorem failed_replacement_keeps_file:
  assumes "\<not> allowMultipleFiles ft" and "files ft = f # fs"
    and "dropped = d # ds" and "outcome (server url d) = None"
  shows "deleteCalls (trace (onDropAccepted server url ft dropped w)) = deleteCalls (trace w)
       \<and> fileTypes (registry (onDropAccepted server url ft dropped w)) = fileTypes (registry w)"
proof -
  have acc: "(if \<not> allowMultipleFiles ft then take 1 dropped else dropped) = [d]"
    using assms by simp
  show ?thesis
    unfolding onDropAccepted_deleteCalls onDropAccepted_fileTypes acc uploadFiles_single
    using assms(4)
    by (simp add: uploadFile_failed split: option.split)
qed

text \<open>
  The theorem at \<^verbatim>\<open>photo\<close> holding \<^verbatim>\<open>a.jpg\<close> in state added, with the refusing
  endpoint: nothing is deleted and \<^verbatim>\<open>a.jpg\<close> stays as it is.
\<close>

theorem failed_replacement_keeps_file_witness:
  "deleteCalls (trace (onDropAccepted refusing ''/upload'' (photo [aJpg (Some ''added'')]) [bPng]
      (mount [photo [aJpg (Some ''added'')]] (Some False)))) = []
   \<and> fileTypes (registry (onDropAccepted refusing ''/upload'' (photo [aJpg (Some ''added'')]) [bPng]
      (mount [photo [aJpg (Some ''added'')]] (Some False)))) = [photo [aJpg (Some ''added'')]]"
proof -
  have 1: "\<not> allowMultipleFiles (photo [aJpg (Some ''added'')])" by (simp add: photo_def)
  have 2: "files (photo [aJpg (Some ''added'')]) = aJpg (Some ''added'') # []"
    by (simp add: photo_def)
  have 3: "[bPng] = bPng # []" by simp
  have 4: "outcome (refusing ''/upload'' bPng) = None" by (simp add: refusing_def)
  show ?thesis
    using failed_replacement_keeps_file [where server = refusing and url = "''/upload''"
        and ft = "photo [aJpg (Some ''added'')]" and f = "aJpg (Some ''added'')" and fs = "[]"
        and dropped = "[bPng]" and d = bPng and ds = "[]"
        and w = "mount [photo [aJpg (Some ''added'')]] (Some False)"] 1 2 3 4
    by (simp add: mount_def initialState_def)
qed

text \<open>
  Claim C10. The single file of a single-file category is in a state other than added
  or modified (a file seeded from the form's value): a drop issues no \<^verbatim>\<open>deleteFile\<close>
  call, whatever the outcome of the upload.
\<close>

theorem no_delete_for_seeded_file:
  assumes "\<not> allowMultipleFiles ft" and "files ft = [f]"
    and "state f \<noteq> Some ''added''" and "state f \<noteq> Some ''modified''"
  shows "deleteCalls (trace (onDropAccepted server url ft dropped w)) = deleteCalls (trace w)"
proof -
  have "fileToDelete ft = None"
    using assms by (simp add: fileToDelete_def)
  then show ?thesis
    by (simp add: onDropAccepted_deleteCalls)
qed

text \<open>
  The theorem at \<^verbatim>\<open>photo\<close> holding \<^verbatim>\<open>a.jpg\<close> without a state, with a successful
  upload of \<^verbatim>\<open>b.png\<close>.
\<close>

theorem no_delete_for_seeded_file_witness:
  "outcome (accepting ''/upload'' bPng) = Some (''U2'', ''b.png'')
   \<and> deleteCalls (trace (onDropAccepted accepting ''/upload'' (photo [aJpg None]) [bPng]
      (mount [photo [aJpg None]] (Some False)))) = []"
proof -
  have 1: "\<not> allowMultipleFiles (photo [aJpg None])" by (simp add: photo_def)
  have 2: "files (photo [aJpg None]) = [aJpg None]" by (simp add: photo_def)
  have 3: "state (aJpg None) \<noteq> Some ''added''" by (simp add: aJpg_def)
  have 4: "state (aJpg None) \<noteq> Some ''modified''" by (simp add: aJpg_def)
  have 5: "outcome (accepting ''/upload'' bPng) = Some (''U2'', ''b.png'')"
    by (simp add: accepting_def bPng_def)
  show ?thesis
    using no_delete_for_seeded_file [where server = accepting and url = "''/upload''"
        and ft = "photo [aJpg None]" and f = "aJpg None" and dropped = "[bPng]"
        and w = "mount [photo [aJpg None]] (Some False)"] 1 2 3 4 5
    by (simp add: mount_def)
qed

section \<open>The filename template\<close>

text \<open>\<^verbatim>\<open>indexOf\<close> counts the characters before the first occurrence.\<close>

lemma indexOf_conv:
  "indexOf s c = (if c \<in> set s then int (length (takeWhile (\<lambda>x. x \<noteq> c) s)) else - 1)"
  by (induction s) (auto simp: Let_def)

text \<open>
  With a dot in the name, \<^verbatim>\<open>slice(0, indexOf('.'))\<close> is the part before the first dot;
  without one it is \<^verbatim>\<open>slice(0, -1)\<close>, the name without its last character.
\<close>

lemma templateFilename_conv:
  "templateFilename n =
     (if CHR ''.'' \<in> set n then takeWhile (\<lambda>c. c \<noteq> CHR ''.'') n else butlast n)"
proof (cases "CHR ''.'' \<in> set n")
  case True
  have "length (takeWhile (\<lambda>c. c \<noteq> CHR ''.'') n) \<le> length n"
    by (rule length_takeWhile_le)
  then have "slice n 0 (int (length (takeWhile (\<lambda>c. c \<noteq> CHR ''.'') n))) =
      take (length (takeWhile (\<lambda>c. c \<noteq> CHR ''.'') n)) n"
    by (simp add: slice_def Let_def min_def)
  also have "\<dots> = takeWhile (\<lambda>c. c \<noteq> CHR ''.'') n"
    by (rule takeWhile_eq_take [symmetric])
  finally show ?thesis
    using True by (simp add: templateFilename_def indexOf_conv)
next
  case False
  have "slice n 0 (- 1) = take (length n - 1) n"
    by (cases n) (simp_all add: slice_def Let_def max_def)
  then show ?thesis
    using False by (simp add: templateFilename_def indexOf_conv butlast_conv_take)
qed

lemma tested_names:
  "templateFilename ''paper.v2.pdf'' = ''paper''"
  "templateFilename ''draft.pdf'' = ''draft''"
  "templateFilename ''paperX'' = ''paper''"
  "templateFilename ''paper'' = ''pape''"
  by (simp_all add: templateFilename_conv)

lemma filterTemplate_kept:
  "fst (filterTemplate re i fs w) = filter (\<lambda>f. re (templateFilename (name f))) fs"
  by (induction fs arbitrary: w) (simp_all add: split_beta)

lemma filterTemplate_trace:
  "trace (snd (filterTemplate re i fs w)) =
   trace w @ map (\<lambda>f. Dispatch (InvalidTemplate i (name f)))
               (filter (\<lambda>f. \<not> re (templateFilename (name f))) fs)"
  by (induction fs arbitrary: w) (simp_all add: split_beta dispatch_def)

lemma invalidTemplate_files:
  "map files (fileTypes (reducer s (InvalidTemplate i fn))) = map files (fileTypes s)"
  by (simp add: updateType_def)

lemma filterTemplate_files:
  "map files (fileTypes (registry (snd (filterTemplate re i fs w)))) =
   map files (fileTypes (registry w))"
proof (induction fs arbitrary: w)
  case Nil
  show ?case by simp
next
  case (Cons f fs)
  show ?case
    using Cons.IH [of w] Cons.IH [of "dispatch (InvalidTemplate i (name f)) w"]
      invalidTemplate_files [of "registry w" i "name f"]
    by (simp add: split_beta dispatch_def)
qed

text \<open>
  Claim C4. The category has a filename template. \<^verbatim>\<open>getFilesFromEvent\<close> dispatches
  one \<^verbatim>\<open>invalidTemplate\<close> action, carrying the category id and the file's name, for
  each dropped file that fails the test of the compiled template, in the order of
  the drop, and nothing else; the files it returns for upload are the dropped files that
  pass the test; and the files the categories of the registry hold are what they were.
\<close>

theorem invalid_template_reported_and_excluded:
  assumes "filenameTemplate ft = Some t" and "t \<noteq> []"
  shows "trace (snd (getFilesFromEvent globToRegExp ft eventFiles w)) =
           trace w @ map (\<lambda>f. Dispatch (InvalidTemplate (id_ft ft) (name f)))
                       (filter (\<lambda>f. \<not> globToRegExp t (templateFilename (name f))) eventFiles)
       \<and> fst (getFilesFromEvent globToRegExp ft eventFiles w) =
           filter (\<lambda>f. globToRegExp t (templateFilename (name f))) eventFiles
       \<and> map files (fileTypes (registry (snd (getFilesFromEvent globToRegExp ft eventFiles w)))) =
           map files (fileTypes (registry w))"
  using assms
  by (simp add: getFilesFromEvent_def filterTemplate_kept filterTemplate_trace filterTemplate_files)

text \<open>
  The theorem at the category \<^verbatim>\<open>papers\<close> with the template \<^verbatim>\<open>paper\<close>: of the four
  dropped files, \<^verbatim>\<open>draft.pdf\<close> and \<^verbatim>\<open>paper\<close> are reported once each and left out.
\<close>

theorem invalid_template_reported_and_excluded_witness:
  "trace (snd (getFilesFromEvent literalGlob (papers []) dropped3 (mount [papers []] (Some False)))) =
     [Dispatch (InvalidTemplate 2 ''draft.pdf''), Dispatch (InvalidTemplate 2 ''paper'')]
   \<and> fst (getFilesFromEvent literalGlob (papers []) dropped3 (mount [papers []] (Some False))) =
     [\<lparr>name = ''paper.v2.pdf'', size = 3\<rparr>, \<lparr>name = ''paperX'', size = 5\<rparr>]
   \<and> map files (fileTypes (registry (snd (getFilesFromEvent literalGlob (papers []) dropped3
        (mount [papers []] (Some False)))))) = [[]]"
proof -
  have 1: "filenameTemplate (papers []) = Some ''paper''" by (simp add: papers_def)
  have 2: "''paper'' \<noteq> []" by simp
  have 3: "id_ft (papers []) = 2" "files (papers []) = []" by (simp_all add: papers_def)
  show ?thesis
    using invalid_template_reported_and_excluded [where globToRegExp = literalGlob
        and ft = "papers []" and t = "''paper''" and eventFiles = dropped3
        and w = "mount [papers []] (Some False)"] 1 2
    by (simp add: 3 dropped3_def literalGlob_def tested_names mount_def initialState_def)
qed

text \<open>
  Claim C9. The string tested against the compiled template is the part of the file
  name before its first dot when the name has a dot, and the name without its last
  character when it has none; a dropped file is kept exactly when that string passes
  the test, so nothing from the first dot on takes part in the match.
\<close>

theorem template_tested_before_first_dot:
  assumes "filenameTemplate ft = Some t" and "t \<noteq> []"
  shows "templateFilename n =
           (if CHR ''.'' \<in> set n then takeWhile (\<lambda>c. c \<noteq> CHR ''.'') n else butlast n)
       \<and> fst (getFilesFromEvent globToRegExp ft eventFiles w) =
           filter (\<lambda>f. globToRegExp t
                     (if CHR ''.'' \<in> set (name f)
                      then takeWhile (\<lambda>c. c \<noteq> CHR ''.'') (name f)
                      else butlast (name f))) eventFiles"
  using assms
  by (simp add: getFilesFromEvent_def filterTemplate_kept templateFilename_conv)

text \<open>
  The theorem at the template \<^verbatim>\<open>paper\<close>: \<^verbatim>\<open>paper.v2.pdf\<close> is tested as
  \<^verbatim>\<open>paper\<close> and kept, \<^verbatim>\<open>paperX\<close> is tested as \<^verbatim>\<open>paper\<close> and kept,
  \<^verbatim>\<open>paper\<close> is tested as \<^verbatim>\<open>pape\<close> and left out.
\<close>

theorem template_tested_before_first_dot_witness:
  "templateFilename ''paper.v2.pdf'' = ''paper''
   \<and> fst (getFilesFromEvent literalGlob (papers [])
        [\<lparr>name = ''paper.v2.pdf'', size = 3\<rparr>, \<lparr>name = ''paperX'', size = 5\<rparr>,
         \<lparr>name = ''paper'', size = 6\<rparr>] (mount [papers []] None)) =
     [\<lparr>name = ''paper.v2.pdf'', size = 3\<rparr>, \<lparr>name = ''paperX'', size = 5\<rparr>]"
proof -
  have 1: "filenameTemplate (papers []) = Some ''paper''" by (simp add: papers_def)
  have 2: "''paper'' \<noteq> []" by simp
  show ?thesis
    using template_tested_before_first_dot [where globToRegExp = literalGlob
        and ft = "papers []" and t = "''paper''" and n = "''paper.v2.pdf''"
        and eventFiles = "[\<lparr>name = ''paper.v2.pdf'', size = 3\<rparr>, \<lparr>name = ''paperX'', size = 5\<rparr>,
         \<lparr>name = ''paper'', size = 6\<rparr>]"
        and w = "mount [papers []] None"] 1 2
    by (simp add: literalGlob_def)
qed

section \<open>The effects of FileManager\<close>

lemma fold_deleteFile:
  "fold deleteFile us w = w\<lparr>trace := trace w @ map DeleteFile us\<rparr>"
  by (induction us arbitrary: w) (simp_all add: deleteFile_def)

lemma edited_uploaded: "getUploadedFileUUIDs edited = [''U1'', ''U4'']"
  by (simp add: getUploadedFileUUIDs_def edited_def photo_def papers_def aJpg_def)

lemma edited_files: "getFiles edited = [''U1'', ''U3'', ''U4'']"
  by (simp add: getFiles_def edited_def photo_def papers_def aJpg_def)

text \<open>
  Claim C3. The last \<^verbatim>\<open>pristine\<close> seen was false and \<^verbatim>\<open>pristine\<close> is now true. The
  effect calls \<^verbatim>\<open>deleteFile\<close> once for each uuid \<^verbatim>\<open>getUploadedFileUUIDs(state)\<close>
  returns, in that order (one per file in state added or modified, across all
  categories), then dispatches one \<^verbatim>\<open>reset\<close> with the original FileTypes; the
  registry is then the initial state built from them, and the flag is remembered.
\<close>

theorem pristine_reset_deletes_uploaded:
  assumes "lastPristineRef w = Some False"
  shows "trace (pristineEffect fts (Some True) w) =
           trace w @ map DeleteFile (getUploadedFileUUIDs (registry w)) @ [Dispatch (Reset fts)]
       \<and> deleteCalls (trace (pristineEffect fts (Some True) w)) =
           deleteCalls (trace w) @
           map uuid (filter (\<lambda>f. state f = Some ''added'' \<or> state f = Some ''modified'')
                       (concat (map files (fileTypes (registry w)))))
       \<and> registry (pristineEffect fts (Some True) w) = initialState fts
       \<and> lastPristineRef (pristineEffect fts (Some True) w) = Some True"
proof -
  have tr: "trace (pristineEffect fts (Some True) w) =
      trace w @ map DeleteFile (getUploadedFileUUIDs (registry w)) @ [Dispatch (Reset fts)]"
    using assms by (simp add: pristineEffect_def Let_def fold_deleteFile dispatch_def)
  have "deleteCalls (trace (pristineEffect fts (Some True) w)) =
      deleteCalls (trace w) @ getUploadedFileUUIDs (registry w)"
    unfolding tr by (simp add: deleteCalls_append deleteCalls_map_DeleteFile)
  then have dl: "deleteCalls (trace (pristineEffect fts (Some True) w)) =
      deleteCalls (trace w) @
      map uuid (filter (\<lambda>f. state f = Some ''added'' \<or> state f = Some ''modified'')
                  (concat (map files (fileTypes (registry w)))))"
    by (simp only: getUploadedFileUUIDs_def)
  have rg: "registry (pristineEffect fts (Some True) w) = initialState fts"
    using assms
    by (simp add: pristineEffect_def Let_def fold_deleteFile dispatch_def initialState_def)
  have lp: "lastPristineRef (pristineEffect fts (Some True) w) = Some True"
    by (simp add: pristineEffect_def Let_def)
  show ?thesis
    using tr dl rg lp by blast
qed

text \<open>
  The theorem at a form whose registry holds \<^verbatim>\<open>U1\<close> (added), \<^verbatim>\<open>U3\<close> (seeded) and
  \<^verbatim>\<open>U4\<close> (modified): \<^verbatim>\<open>U1\<close> and \<^verbatim>\<open>U4\<close> are deleted, then the registry is reset.
\<close>

theorem pristine_reset_deletes_uploaded_witness:
  "trace (pristineEffect [photo [], papers []] (Some True) (editing edited)) =
     [DeleteFile ''U1'', DeleteFile ''U4'', Dispatch (Reset [photo [], papers []])]
   \<and> deleteCalls (trace (pristineEffect [photo [], papers []] (Some True) (editing edited))) =
     [''U1'', ''U4'']
   \<and> registry (pristineEffect [photo [], papers []] (Some True) (editing edited)) =
     initialState [photo [], papers []]
   \<and> lastPristineRef (pristineEffect [photo [], papers []] (Some True) (editing edited)) = Some True"
proof -
  have 1: "lastPristineRef (editing edited) = Some False" by (simp add: editing_def)
  have 2: "registry (editing edited) = edited" "trace (editing edited) = []"
    by (simp_all add: editing_def)
  have 3: "map uuid (filter (\<lambda>f. state f = Some ''added'' \<or> state f = Some ''modified'')
      (concat (map files (fileTypes edited)))) = [''U1'', ''U4'']"
    using edited_uploaded by (simp only: getUploadedFileUUIDs_def)
  show ?thesis
    using pristine_reset_deletes_uploaded [OF 1, of "[photo [], papers []]"]
    unfolding 2 3 edited_uploaded by simp
qed

text \<open>
  Claim C7. The registry is dirty. The effect calls \<^verbatim>\<open>onChange(getFiles(state))\<close>
  once and dispatches \<^verbatim>\<open>clearDirty\<close> right after it, and nothing else; the registry
  is then the same but for the cleared flag, and running the effect again on the
  result does nothing.
\<close>

theorem dirty_propagated_once:
  assumes "isDirty (registry w)"
  shows "trace (dirtyEffect w) = trace w @ [OnChange (getFiles (registry w)), Dispatch ClearDirty]
       \<and> registry (dirtyEffect w) = (registry w)\<lparr>isDirty := False\<rparr>
       \<and> dirtyEffect (dirtyEffect w) = dirtyEffect w"
  using assms by (simp add: dirtyEffect_def dispatch_def onChange_def)

text \<open>The theorem at the dirty registry holding \<^verbatim>\<open>U1\<close>, \<^verbatim>\<open>U3\<close> and \<^verbatim>\<open>U4\<close>.\<close>

theorem dirty_propagated_once_witness:
  "trace (dirtyEffect (editing edited)) = [OnChange [''U1'', ''U3'', ''U4''], Dispatch ClearDirty]
   \<and> registry (dirtyEffect (editing edited)) = edited\<lparr>isDirty := False\<rparr>
   \<and> dirtyEffect (dirtyEffect (editing edited)) = dirtyEffect (editing edited)"
proof -
  have 1: "isDirty (registry (editing edited))" by (simp add: editing_def edited_def)
  have 2: "registry (editing edited) = edited" "trace (editing edited) = []"
    by (simp_all add: editing_def)
  show ?thesis
    using dirty_propagated_once [OF 1]
    unfolding 2 edited_files by simp
qed

text \<open>
  Claim C6. From any state, the \<^verbatim>\<open>reset\<close> action with the FileTypes \<open>fts\<close> gives a
  registry whose FileTypes are \<open>fts\<close>, whose derived file list is the one of \<open>fts\<close>,
  whose dirty flag is false and whose uploads are empty: the state \<^verbatim>\<open>FileManager\<close>
  starts from.
\<close>

theorem reset_reinitialises:
  "fileTypes (reducer s (Reset fts)) = fts
   \<and> getFiles (reducer s (Reset fts)) = concat (map (\<lambda>ft. map uuid (files ft)) fts)
   \<and> isDirty (reducer s (Reset fts)) = False
   \<and> uploads (reducer s (Reset fts)) = []
   \<and> reducer s (Reset fts) = initialState fts
   \<and> registry (dispatch (Reset fts) w) = initialState fts"
  by (simp add: getFiles_def initialState_def dispatch_def)

text \<open>The theorem at the edited registry, reset to \<^verbatim>\<open>photo\<close> holding the seeded \<^verbatim>\<open>a.jpg\<close>.\<close>

theorem reset_reinitialises_witness:
  "fileTypes (reducer edited (Reset [photo [aJpg None]])) = [photo [aJpg None]]
   \<and> getFiles (reducer edited (Reset [photo [aJpg None]])) = [''U1'']
   \<and> isDirty (reducer edited (Reset [photo [aJpg None]])) = False
   \<and> uploads (reducer edited (Reset [photo [aJpg None]])) = []"
  using reset_reinitialises [of edited "[photo [aJpg None]]"]
  by (simp add: photo_def aJpg_def initialState_def getFiles_def)

text \<open>
  Claim C8, as the code has it. A validation field is rendered exactly when the widget
  has a non-empty final field name and either an upload is in progress or the validation
  error is a non-empty string; the messages are the translation of
  \<^verbatim>\<open>Upload in progress\<close> and the validation error.
\<close>

theorem validation_only_with_field_name:
  "(validationFields translate finalFieldName uploading validationError \<noteq> []) =
     (truthy finalFieldName \<and> (uploading \<or> truthy validationError))
   \<and> set (map snd (validationFields translate finalFieldName uploading validationError)) \<subseteq>
     {translate ''Upload in progress''} \<union> set_option validationError"
  by (auto simp: validationFields_def truthy_def split: option.splits)

text \<open>The theorem at the field \<^verbatim>\<open>files\<close> during an upload.\<close>

theorem validation_only_with_field_name_witness:
  "validationFields id (Some ''files'') True None = [(''_files_uploading'', ''Upload in progress'')]
   \<and> (validationFields id (Some ''files'') True None \<noteq> []) =
       (truthy (Some ''files'') \<and> (True \<or> truthy None))"
  using validation_only_with_field_name [of id "Some ''files''" True None]
  by (simp add: validationFields_def truthy_def)

text \<open>
  Claim C8 as stated fails for a widget without a final field name (the default of
  \<^verbatim>\<open>FileManager\<close>): during an upload no validation field is rendered.
\<close>

theorem validation_without_field_name_counterexample:
  "\<not> ((validationFields id None True None \<noteq> []) = (True \<or> (None :: string option) \<noteq> None))"
  by (simp add: validationFields_def truthy_def)

end
